theory Spec2Isabelle
  imports Main "HOL-Library.Word"
begin

unbundle bit_operations_syntax

section \<open>The ClickBus backend: pod identity, request counter and log buffer\<close>

text \<open>
  The backend (the Hono application) keeps four module-level bindings: the constants
  \<open>POD_GUID\<close> and \<open>POD_START_TIME\<close>, set once when the module is loaded, and the
  variables \<open>podLogs\<close> and \<open>requestCount\<close>. Seven routes read or update them. Each
  route handler becomes a function from the state before the request to the response and
  the state after it. What a handler reads from outside the program (the clock, the
  random source, the environment bindings, the request body) is an argument.
\<close>

subsection \<open>Values of the platform\<close>

text \<open>
  A JSON value, as \<open>JSON.parse\<close> yields it for a request body and as \<open>c.json\<close> takes it
  for a response. An object is its list of properties, one per key.
\<close>

datatype json =
    JNull
  | JBool bool
  | JNum int
  | JStr string
  | JArr "json list"
  | JObj "(string \<times> json) list"

text \<open>Reading a property: \<open>undefined\<close> (here \<open>None\<close>) when the value is no object or has no such key.\<close>

fun get_prop :: "json \<Rightarrow> string \<Rightarrow> json option" where
  "get_prop (JObj kv) k = map_of kv k"
| "get_prop _ k = None"

text \<open>
  A \<open>Date\<close> object, by the two readings the program takes of it: \<open>getTime()\<close>, the
  milliseconds since the epoch, and \<open>toISOString()\<close>. \<open>new Date(d.toISOString())\<close> denotes
  the same millisecond as \<open>d\<close>, so the start time, which the program keeps as its ISO
  string and parses again for the uptime, is kept as the \<open>Date\<close> it was taken from.
\<close>

record js_date =
  getTime :: int
  toISOString :: string

text \<open>
  What one request reads from the platform: the clock (\<open>new Date()\<close>, \<open>Date.now()\<close>; the
  reads of one handler are taken at one instant) and the 128 random bits that
  \<open>crypto.randomUUID()\<close> draws.
\<close>

record ambient =
  now :: js_date
  entropy :: "128 word"

text \<open>The environment bindings \<open>c.env\<close>; a binding that is not set is \<open>None\<close>.\<close>

record env =
  POD_NAME :: "string option"
  POD_NAMESPACE :: "string option"
  POD_IP :: "string option"
  AZURE_SERVICE_BUS_CONNECTION_STRING :: "string option"

text \<open>\<open>v || d\<close> on a string binding: \<open>undefined\<close> and the empty string are falsy.\<close>

definition or_default :: "string option \<Rightarrow> string \<Rightarrow> string" where
  "or_default v d = (case v of None \<Rightarrow> d | Some s \<Rightarrow> if s = [] then d else s)"

text \<open>
  Strings are lists of 8-bit characters, a text outside ASCII being its UTF-8 bytes. The
  program looks for two characters only, the line feed and the pipe; both are ASCII, and
  their bytes occur in UTF-8 nowhere else, so splitting, joining and replacing act on the
  bytes as they do on the program's strings.

  The line feed, \<open>\n\<close> in the program's string literals.
\<close>

definition eol :: string where
  "eol = [CHR 0x0A]"

text \<open>
  \<open>String(n)\<close> for an integer \<open>n\<close>, as a template literal renders a number: decimal
  digits, with a minus sign below zero. (The integers the program renders stay below
  \<open>10^21\<close>, where JavaScript switches to the exponent form.)
\<close>

fun digits :: "nat \<Rightarrow> string" where
  "digits n = (if n < 10 then [''0123456789'' ! n]
               else digits (n div 10) @ [''0123456789'' ! (n mod 10)])"

declare digits.simps [simp del]

definition String :: "int \<Rightarrow> string" where
  "String i = (if i < 0 then ''-'' @ digits (nat (- i)) else digits (nat i))"

text \<open>
  \<open>crypto.randomUUID()\<close>: a version 4 UUID of RFC 4122. Of 128 random bits, the
  version nibble is set to 4 and the two variant bits to \<open>10\<close>; the result is the 32
  hexadecimal digits in lower case, grouped 8-4-4-4-12 by hyphens.
\<close>

definition v4_bits :: "128 word \<Rightarrow> 128 word" where
  "v4_bits w = (w AND NOT (push_bit 76 15) AND NOT (push_bit 62 3)) OR push_bit 76 4 OR push_bit 62 2"

definition hex_digits :: "128 word \<Rightarrow> string" where
  "hex_digits w =
     map (\<lambda>k. ''0123456789abcdef'' ! unat (drop_bit (4 * (31 - k)) w AND 15)) [0..<32]"

definition randomUUID :: "128 word \<Rightarrow> string" where
  "randomUUID w =
     (let d = hex_digits (v4_bits w)
      in take 8 d @ ''-'' @ take 4 (drop 8 d) @ ''-'' @ take 4 (drop 12 d) @ ''-''
         @ take 4 (drop 16 d) @ ''-'' @ drop 20 d)"

text \<open>\<open>xs.join(sep)\<close> on an array of strings.\<close>

fun join :: "string \<Rightarrow> string list \<Rightarrow> string" where
  "join sep [] = []"
| "join sep [x] = x"
| "join sep (x # y # ys) = x @ sep @ join sep (y # ys)"

text \<open>\<open>xs.slice(-k)\<close>: the last \<open>k\<close> elements, all of them when there are fewer.\<close>

definition slice_last :: "nat \<Rightarrow> 'a list \<Rightarrow> 'a list" where
  "slice_last k xs = drop (length xs - k) xs"

text \<open>
  \<open>n++\<close> on a JavaScript number that counts up from 0. Numbers are IEEE doubles: every
  integer up to \<open>2^53\<close> is exact, and \<open>2^53 + 1\<close> rounds back to \<open>2^53\<close>, so the counter
  stays there once it has reached it.
\<close>

definition incr :: "nat \<Rightarrow> nat" where
  "incr n = (if n < 2 ^ 53 then n + 1 else n)"

subsection \<open>The state of one pod\<close>

record pod =
  POD_GUID :: string
  POD_START_TIME :: js_date
  podLogs :: "string list"
  requestCount :: nat

text \<open>
  Loading the module: the GUID is drawn, then the clock is read; the buffer is empty and
  the counter is 0.
\<close>

definition pod_init :: "ambient \<Rightarrow> pod" where
  "pod_init a =
     \<lparr>POD_GUID = randomUUID (entropy a), POD_START_TIME = now a, podLogs = [], requestCount = 0\<rparr>"

text \<open>The pod's name as every handler computes it: \<open>c.env.POD_NAME || 'backend-pod'\<close>.\<close>

definition env_podName :: "env \<Rightarrow> string" where
  "env_podName e = or_default (POD_NAME e) ''backend-pod''"

text \<open>
  The uptime in whole seconds:
  \<open>Math.floor((Date.now() - new Date(POD_START_TIME).getTime()) / 1000)\<close>.
\<close>

definition uptime :: "ambient \<Rightarrow> pod \<Rightarrow> int" where
  "uptime a s = (getTime (now a) - getTime (POD_START_TIME s)) div 1000"

subsection \<open>POST /api/log\<close>

text \<open>The validated body, \<open>c.req.valid('json')\<close>.\<close>

record log_data =
  action :: string
  guid :: string
  details :: string
  timestamp :: string
  podName :: "string option"

text \<open>
  \<open>LogActionSchema\<close>, a \<open>z.object\<close>: the body must be an object; \<open>z.string()\<close> wants the
  key present with a string value; \<open>z.string().optional()\<close> wants it absent or a string.
  Keys the schema does not name are dropped. \<open>None\<close> is a failed parse.
\<close>

fun z_string :: "json option \<Rightarrow> string option" where
  "z_string (Some (JStr s)) = Some s"
| "z_string _ = None"

fun z_string_optional :: "json option \<Rightarrow> string option option" where
  "z_string_optional None = Some None"
| "z_string_optional (Some (JStr s)) = Some (Some s)"
| "z_string_optional (Some _) = None"

definition LogActionSchema :: "json \<Rightarrow> log_data option" where
  "LogActionSchema j =
     (case j of
        JObj kv \<Rightarrow>
          (case z_string (map_of kv ''action'') of None \<Rightarrow> None | Some a \<Rightarrow>
          (case z_string (map_of kv ''guid'') of None \<Rightarrow> None | Some g \<Rightarrow>
          (case z_string (map_of kv ''details'') of None \<Rightarrow> None | Some d \<Rightarrow>
          (case z_string (map_of kv ''timestamp'') of None \<Rightarrow> None | Some t \<Rightarrow>
          (case z_string_optional (map_of kv ''podName'') of None \<Rightarrow> None | Some p \<Rightarrow>
             Some \<lparr>action = a, guid = g, details = d, timestamp = t, podName = p\<rparr>)))))
      | _ \<Rightarrow> None)"

text \<open>
  A response: \<open>c.json(body, status)\<close>, \<open>c.text(body, status)\<close> (status 200 when none is
  given), or the reply of \<open>zValidator\<close> to a body that fails the schema, which has status
  400 and zod's issue report as its body (the report is not modelled).
\<close>

datatype response =
    JsonResponse nat json
  | TextResponse nat string
  | InvalidPayload

fun status :: "response \<Rightarrow> nat" where
  "status (JsonResponse c b) = c"
| "status (TextResponse c b) = c"
| "status InvalidPayload = 400"

text \<open>The log line the handler formats, from the counter's new value \<open>n\<close>.\<close>

definition logEntry :: "env \<Rightarrow> ambient \<Rightarrow> log_data \<Rightarrow> pod \<Rightarrow> nat \<Rightarrow> string" where
  "logEntry e a d s n =
     toISOString (now a) @ '' | Pod: '' @ env_podName e @ '' | GUID: '' @ POD_GUID s
     @ '' | Action: '' @ action d @ '' | Details: '' @ details d
     @ '' | Req#: '' @ String (int n)"

text \<open>
  The handler proper, on a validated body: count the request, format the line, push it,
  keep the last 100 lines when there are more, and acknowledge with a fresh UUID. The
  handler's \<open>try\<close> block has no statement that throws on these inputs (the service-bus
  branch only writes to the console), so its \<open>catch\<close> branch, the 500 reply, is never
  taken; console output is not part of the model.
\<close>

definition log_action :: "env \<Rightarrow> ambient \<Rightarrow> log_data \<Rightarrow> pod \<Rightarrow> response \<times> pod" where
  "log_action e a d s =
     (let n = incr (requestCount s);
          pushed = podLogs s @ [logEntry e a d s n];
          kept = (if length pushed > 100 then slice_last 100 pushed else pushed)
      in (JsonResponse 200
            (JObj [(''success'', JBool True),
                   (''message'', JStr ''Action logged successfully''),
                   (''logId'', JStr (randomUUID (entropy a)))]),
          s\<lparr>podLogs := kept, requestCount := n\<rparr>))"

text \<open>
  The route: the validator first; the handler runs only on a body that passes. (A request
  whose body is no JSON at all is answered with status 400 before the schema is tried, and
  does not reach the handler either; the route is modelled on parsed bodies.)
\<close>

definition api_log :: "env \<Rightarrow> ambient \<Rightarrow> json \<Rightarrow> pod \<Rightarrow> response \<times> pod" where
  "api_log e a j s =
     (case LogActionSchema j of
        None \<Rightarrow> (InvalidPayload, s)
      | Some d \<Rightarrow> log_action e a d s)"

subsection \<open>GET /api/logs/guid and GET /api/logs/data\<close>

text \<open>
  Both handlers build a header from the state, then print the placeholder or the lines.
  Neither assigns a module variable. Their \<open>try\<close> blocks hold string operations only,
  which do not throw, so the \<open>catch\<close> branches (status 500) are never taken.
\<close>

definition guid_header :: "env \<Rightarrow> pod \<Rightarrow> string" where
  "guid_header e s =
     ''=== ClickBus Pod GUID Logs ==='' @ eol
     @ ''Pod: '' @ env_podName e @ eol
     @ ''GUID: '' @ POD_GUID s @ eol
     @ ''Started: '' @ toISOString (POD_START_TIME s) @ eol
     @ ''Total Requests Processed: '' @ String (int (requestCount s)) @ eol @ eol
     @ ''=== Recent Activity ==='' @ eol"

definition api_logs_guid :: "env \<Rightarrow> pod \<Rightarrow> response" where
  "api_logs_guid e s =
     (if length (podLogs s) = 0
      then TextResponse 200 (guid_header e s @ ''No activity logged yet on this pod.'')
      else TextResponse 200 (guid_header e s @ join eol (podLogs s)))"

definition data_header :: "env \<Rightarrow> pod \<Rightarrow> string" where
  "data_header e s =
     ''=== ClickBus Data Activity Log ==='' @ eol
     @ ''Pod Name: '' @ env_podName e @ eol
     @ ''Pod GUID: '' @ POD_GUID s @ eol
     @ ''Uptime: '' @ toISOString (POD_START_TIME s) @ eol
     @ ''Requests Handled: '' @ String (int (requestCount s)) @ eol @ eol"

definition data_placeholder :: string where
  "data_placeholder =
     ''No user interactions logged yet on this pod.'' @ eol @ eol
     @ ''Note: In a 10-replica deployment, you'' @ [CHR 0x27]
     @ ''ll see different pod GUIDs serving different requests, demonstrating load distribution.''"

text \<open>\<open>log.replace(/\|/g, ' -')\<close>: every pipe becomes a space and a dash.\<close>

definition replace_pipes :: "string \<Rightarrow> string" where
  "replace_pipes log = concat (map (\<lambda>c. if c = CHR ''|'' then '' -'' else [c]) log)"

definition api_logs_data :: "env \<Rightarrow> pod \<Rightarrow> response" where
  "api_logs_data e s =
     (if length (podLogs s) = 0
      then TextResponse 200 (data_header e s @ data_placeholder)
      else TextResponse 200 (data_header e s @ join eol (map replace_pipes (podLogs s))))"

subsection \<open>The identity and status routes\<close>

definition api_pod_guid :: "env \<Rightarrow> ambient \<Rightarrow> pod \<Rightarrow> response \<times> pod" where
  "api_pod_guid e a s =
     (let n = incr (requestCount s);
          s' = s\<lparr>requestCount := n\<rparr>
      in (JsonResponse 200
            (JObj [(''podGuid'', JStr (POD_GUID s')),
                   (''podName'', JStr (env_podName e)),
                   (''startTime'', JStr (toISOString (POD_START_TIME s'))),
                   (''requestsHandled'', JNum (int (requestCount s'))),
                   (''timestamp'', JStr (toISOString (now a))),
                   (''uptime'', JStr (String (uptime a s') @ '' seconds''))]),
          s'))"

definition api_pod_status :: "env \<Rightarrow> ambient \<Rightarrow> pod \<Rightarrow> response" where
  "api_pod_status e a s =
     JsonResponse 200
       (JObj [(''deployment'', JStr ''ClickBus Backend''),
              (''podName'', JStr (env_podName e)),
              (''podGuid'', JStr (POD_GUID s)),
              (''namespace'', JStr (or_default (POD_NAMESPACE e) ''clickbus'')),
              (''podIP'', JStr (or_default (POD_IP e) ''unknown'')),
              (''startTime'', JStr (toISOString (POD_START_TIME s))),
              (''uptime'', JNum (uptime a s)),
              (''requestsProcessed'', JNum (int (requestCount s))),
              (''logEntries'', JNum (int (length (podLogs s)))),
              (''timestamp'', JStr (toISOString (now a))),
              (''note'', JStr ''In a 10-replica deployment, each pod will have a unique GUID and process different requests'')])"

definition api_health :: "env \<Rightarrow> ambient \<Rightarrow> pod \<Rightarrow> response" where
  "api_health e a s =
     JsonResponse 200
       (JObj [(''status'', JStr ''healthy''),
              (''service'', JStr ''ClickBus Backend''),
              (''timestamp'', JStr (toISOString (now a))),
              (''podName'', JStr (env_podName e)),
              (''podGuid'', JStr (POD_GUID s)),
              (''uptime'', JStr (String (uptime a s) @ ''s'')),
              (''requestsProcessed'', JNum (int (requestCount s))),
              (''deploymentReady'', JBool True)])"

definition root :: "env \<Rightarrow> pod \<Rightarrow> response" where
  "root e s =
     JsonResponse 200
       (JObj [(''service'', JStr ''ClickBus Backend API''),
              (''version'', JStr ''1.0.0''),
              (''podGuid'', JStr (POD_GUID s)),
              (''podName'', JStr (env_podName e)),
              (''startTime'', JStr (toISOString (POD_START_TIME s))),
              (''requestsHandled'', JNum (int (requestCount s))),
              (''endpoints'', JArr [JStr ''/api/log'', JStr ''/api/logs/guid'', JStr ''/api/logs/data'',
                                   JStr ''/api/health'', JStr ''/api/pod-guid'', JStr ''/api/pod-status'']),
              (''deploymentNote'', JStr ''Each pod in a 10-replica deployment will show a unique GUID'')])"

subsection \<open>The application: one request, and a history of requests\<close>

text \<open>
  The seven routes. The CORS middleware in front of them only adds headers to the
  responses of these requests; headers are not modelled, nor are requests that match no
  route.
\<close>

datatype request =
    PostLog json
  | GetLogsGuid
  | GetLogsData
  | GetPodGuid
  | GetPodStatus
  | GetHealth
  | GetRoot

fun handle :: "env \<Rightarrow> request \<Rightarrow> ambient \<Rightarrow> pod \<Rightarrow> response \<times> pod" where
  "handle e (PostLog j) a s = api_log e a j s"
| "handle e GetLogsGuid a s = (api_logs_guid e s, s)"
| "handle e GetLogsData a s = (api_logs_data e s, s)"
| "handle e GetPodGuid a s = api_pod_guid e a s"
| "handle e GetPodStatus a s = (api_pod_status e a s, s)"
| "handle e GetHealth a s = (api_health e a s, s)"
| "handle e GetRoot a s = (root e s, s)"

text \<open>The state after a history of requests, handled one after the other.\<close>

fun after :: "env \<Rightarrow> (request \<times> ambient) list \<Rightarrow> pod \<Rightarrow> pod" where
  "after e [] s = s"
| "after e ((r, a) # h) s = after e h (snd (handle e r a s))"

subsection \<open>Reading responses, and sample inputs\<close>

text \<open>A property of a JSON response's body; \<open>None\<close> when the response is not JSON.\<close>

fun body_prop :: "response \<Rightarrow> string \<Rightarrow> json option" where
  "body_prop (JsonResponse c b) k = get_prop b k"
| "body_prop _ k = None"

text \<open>The lines of a text, \<open>body.split('\n')\<close>.\<close>

fun split_lines :: "string \<Rightarrow> string list" where
  "split_lines [] = [[]]"
| "split_lines (c # cs) =
     (if c = CHR 0x0A then [] # split_lines cs
      else (case split_lines cs of l # ls \<Rightarrow> (c # l) # ls | [] \<Rightarrow> [[c]]))"

text \<open>
  The lines that a history of requests pushes onto the buffer, in arrival order: one for
  each POST /api/log whose body passes the schema, formatted in the state the request
  meets.
\<close>

fun ingested :: "env \<Rightarrow> (request \<times> ambient) list \<Rightarrow> pod \<Rightarrow> string list" where
  "ingested e [] s = []"
| "ingested e ((r, a) # h) s =
     (case r of
        PostLog j \<Rightarrow>
          (case LogActionSchema j of
             Some d \<Rightarrow> [logEntry e a d s (incr (requestCount s))]
           | None \<Rightarrow> [])
      | _ \<Rightarrow> [])
     @ ingested e h (snd (handle e r a s))"

text \<open>Concrete inputs for the instances below.\<close>

definition sample_env :: env where
  "sample_env =
     \<lparr>POD_NAME = Some ''clickbus-backend-7'', POD_NAMESPACE = None, POD_IP = None,
      AZURE_SERVICE_BUS_CONNECTION_STRING = None\<rparr>"

definition sample_ambient :: ambient where
  "sample_ambient =
     \<lparr>now = \<lparr>getTime = 1700000000000, toISOString = ''2023-11-14T22:13:20.000Z''\<rparr>,
      entropy = 0x0123456789abcdef0123456789abcdef\<rparr>"

definition tile_click :: json where
  "tile_click =
     JObj [(''action'', JStr ''tile_click''), (''guid'', JStr ''g1''),
           (''details'', JStr ''d1''), (''timestamp'', JStr ''t1'')]"

definition sample_pod :: pod where
  "sample_pod =
     \<lparr>POD_GUID = ''01234567-89ab-4def-8123-456789abcdef'', POD_START_TIME = now sample_ambient,
      podLogs = [], requestCount = 0\<rparr>"

text \<open>
  The rendering of a log line in the data report as the specification words it, each pipe
  replaced by a dash; to be compared with \<open>replace_pipes\<close>, which is the program's.
\<close>

definition dash_for_pipe :: "string \<Rightarrow> string" where
  "dash_for_pipe log = map (\<lambda>c. if c = CHR ''|'' then CHR ''-'' else c) log"

section \<open>Properties\<close>

subsection \<open>What every request preserves\<close>

lemma length_randomUUID: "length (randomUUID w) = 36"
  by (simp add: randomUUID_def hex_digits_def Let_def)

lemma incr_ge: "n \<le> incr n"
  by (simp add: incr_def)

lemma log_action_bounded: "length (podLogs (snd (log_action e a d s))) \<le> 100"
  by (simp add: log_action_def Let_def slice_last_def)

lemma handle_POD_GUID: "POD_GUID (snd (handle e r a s)) = POD_GUID s"
  by (cases r) (simp_all add: api_log_def log_action_def api_pod_guid_def Let_def split: option.split)

lemma handle_POD_START_TIME: "POD_START_TIME (snd (handle e r a s)) = POD_START_TIME s"
  by (cases r) (simp_all add: api_log_def log_action_def api_pod_guid_def Let_def split: option.split)

lemma handle_requestCount: "requestCount s \<le> requestCount (snd (handle e r a s))"
  by (cases r)
    (simp_all add: api_log_def log_action_def api_pod_guid_def Let_def incr_ge split: option.split)

lemma handle_bounded:
  "length (podLogs s) \<le> 100 \<Longrightarrow> length (podLogs (snd (handle e r a s))) \<le> 100"
  by (cases r)
    (simp_all add: api_log_def log_action_bounded api_pod_guid_def Let_def split: option.split)

lemma after_POD_GUID: "POD_GUID (after e h s) = POD_GUID s"
  by (induction e h s rule: after.induct) (simp_all add: handle_POD_GUID)

lemma after_POD_START_TIME: "POD_START_TIME (after e h s) = POD_START_TIME s"
  by (induction e h s rule: after.induct) (simp_all add: handle_POD_START_TIME)

lemma after_requestCount: "requestCount s \<le> requestCount (after e h s)"
proof (induction e h s rule: after.induct)
  case (1 e s)
  show ?case by simp
next
  case (2 e r a h s)
  have "requestCount s \<le> requestCount (snd (handle e r a s))"
    by (rule handle_requestCount)
  with 2 show ?case by simp
qed

lemma after_bounded:
  "length (podLogs s) \<le> 100 \<Longrightarrow> length (podLogs (after e h s)) \<le> 100"
  by (induction e h s rule: after.induct) (simp_all add: handle_bounded)

subsection \<open>The bound on the log buffer\<close>

text \<open>
  Claim C1. Whatever the state before, the buffer holds at most 100 lines once the
  ingestion handler has pushed its line and truncated: so it does after POST /api/log
  with a body that passes the schema (a body that fails it leaves the state as it was).
  The bound holds in the state the module starts in and after every history of requests
  from there, whatever the requests are.
\<close>

theorem log_buffer_at_most_100:
  "length (podLogs (snd (log_action e a d s))) \<le> 100
   \<and> (case LogActionSchema j of
        Some v \<Rightarrow> length (podLogs (snd (api_log e a j s))) \<le> 100
      | None \<Rightarrow> snd (api_log e a j s) = s)
   \<and> length (podLogs (pod_init boot)) \<le> 100
   \<and> length (podLogs (after e h (pod_init boot))) \<le> 100"
proof -
  have route: "case LogActionSchema j of
        Some v \<Rightarrow> length (podLogs (snd (api_log e a j s))) \<le> 100
      | None \<Rightarrow> snd (api_log e a j s) = s"
    by (simp add: api_log_def log_action_bounded split: option.split)
  have "length (podLogs (pod_init boot)) \<le> 100"
    by (simp add: pod_init_def)
  with route show ?thesis
    using after_bounded [of "pod_init boot" e h] log_action_bounded [of e a d s] by simp
qed

text \<open>An instance: the click \<open>tile_click\<close>, posted in the starting state.\<close>

theorem log_buffer_at_most_100_witness:
  "LogActionSchema tile_click \<noteq> None
   \<and> length (podLogs (snd (api_log sample_env sample_ambient tile_click (pod_init sample_ambient))))
       \<le> 100"
proof -
  have valid: "LogActionSchema tile_click \<noteq> None"
    by (simp add: LogActionSchema_def tile_click_def)
  then show ?thesis
    using log_buffer_at_most_100
      [where e = sample_env and a = sample_ambient and j = tile_click
         and s = "pod_init sample_ambient"]
    by (auto split: option.splits)
qed

subsection \<open>Eviction: the buffer is the last 100 lines pushed\<close>

lemma slice_last_append: "slice_last k (slice_last k xs @ ys) = slice_last k (xs @ ys)"
proof (cases "length xs \<le> k")
  case True
  then show ?thesis by (simp add: slice_last_def)
next
  case False
  then have "length xs + length ys - k = length ys + (length xs - k)" by simp
  with False show ?thesis by (simp add: slice_last_def)
qed

lemma slice_last_long: "k \<le> length ys \<Longrightarrow> slice_last k (xs @ ys) = slice_last k ys"
  by (simp add: slice_last_def)

lemma length_slice_last_eq: "k \<le> length xs \<Longrightarrow> length (slice_last k xs) = k"
  by (simp add: slice_last_def)

lemma log_action_podLogs:
  "podLogs (snd (log_action e a d s)) =
     slice_last 100 (podLogs s @ [logEntry e a d s (incr (requestCount s))])"
  by (simp add: log_action_def Let_def slice_last_def)

lemma handle_podLogs:
  "podLogs (snd (handle e r a s)) =
     (if ingested e [(r, a)] s = [] then podLogs s
      else slice_last 100 (podLogs s @ ingested e [(r, a)] s))"
  by (cases r)
    (simp_all add: api_log_def log_action_podLogs api_pod_guid_def Let_def split: option.split)

lemma ingested_Cons:
  "ingested e ((r, a) # h) s = ingested e [(r, a)] s @ ingested e h (snd (handle e r a s))"
  by simp

lemma after_podLogs:
  "podLogs (after e h s) =
     (if ingested e h s = [] then podLogs s else slice_last 100 (podLogs s @ ingested e h s))"
proof (induction e h s rule: after.induct)
  case (1 e s)
  show ?case by simp
next
  case (2 e r a h s)
  let ?s1 = "snd (handle e r a s)"
  let ?x = "ingested e [(r, a)] s"
  let ?rest = "ingested e h ?s1"
  have split: "ingested e ((r, a) # h) s = ?x @ ?rest"
    by (rule ingested_Cons)
  have step: "podLogs ?s1 = (if ?x = [] then podLogs s else slice_last 100 (podLogs s @ ?x))"
    by (rule handle_podLogs)
  have run: "podLogs (after e ((r, a) # h) s) =
      (if ?rest = [] then podLogs ?s1 else slice_last 100 (podLogs ?s1 @ ?rest))"
    using 2 by simp
  show ?case
  proof (cases "?x = []")
    case True
    with step run split show ?thesis by simp
  next
    case False
    with step have s1: "podLogs ?s1 = slice_last 100 (podLogs s @ ?x)" by simp
    show ?thesis
    proof (cases "?rest = []")
      case True
      with run s1 split False show ?thesis by simp
    next
      case False
      with run s1 have "podLogs (after e ((r, a) # h) s) = slice_last 100 ((podLogs s @ ?x) @ ?rest)"
        by (simp only: slice_last_append if_False)
      with split \<open>?x \<noteq> []\<close> show ?thesis by simp
    qed
  qed
qed

lemma length_ingested:
  "length (ingested e h s) =
     length (filter (\<lambda>(r, a). \<exists>j. r = PostLog j \<and> LogActionSchema j \<noteq> None) h)"
  by (induction e h s rule: ingested.induct) (auto split: request.split option.split)

lemma tile_click_valid:
  "LogActionSchema tile_click =
     Some \<lparr>action = ''tile_click'', guid = ''g1'', details = ''d1'', timestamp = ''t1'',
            podName = None\<rparr>"
  by (simp add: LogActionSchema_def tile_click_def)

lemma sample_pod_init: "pod_init sample_ambient = sample_pod"
  by (simp add: pod_init_def sample_ambient_def sample_pod_def randomUUID_def hex_digits_def
      v4_bits_def Let_def upt_rec)

text \<open>
  Claim C2. Take any history of requests in which more than 100 ingestion calls carry a
  valid body (\<open>ingested\<close> lists the lines they push, one per such call, in arrival
  order), from any state. Afterwards the buffer is exactly the last 100 of those lines, in
  that order: the older ones are dropped from the front and nothing else is. The GUID
  report is its header followed by these 100 lines as they are, the data report is its
  header followed by the same 100 lines, in the same order, each with every pipe turned
  into a space and a dash and every other character kept; in both, the first line is
  followed by each further line behind a line feed.
\<close>

theorem last_100_in_arrival_order:
  "100 < length (ingested e h s) \<Longrightarrow>
     podLogs (after e h s) = slice_last 100 (ingested e h s)
     \<and> length (podLogs (after e h s)) = 100
     \<and> slice_last 100 (ingested e h s) = drop (length (ingested e h s) - 100) (ingested e h s)
     \<and> api_logs_guid e (after e h s) =
         TextResponse 200 (guid_header e (after e h s) @ join eol (slice_last 100 (ingested e h s)))
     \<and> api_logs_data e (after e h s) =
         TextResponse 200
           (data_header e (after e h s)
            @ join eol
                (map (\<lambda>l. concat (map (\<lambda>c. if c = CHR ''|'' then '' -'' else [c]) l))
                   (slice_last 100 (ingested e h s))))
     \<and> join eol (l # ls) = l @ concat (map ((#) (CHR 0x0A)) ls)"
proof -
  assume many: "100 < length (ingested e h s)"
  then have "ingested e h s \<noteq> []" by auto
  then have "podLogs (after e h s) = slice_last 100 (podLogs s @ ingested e h s)"
    by (simp add: after_podLogs)
  with many have kept: "podLogs (after e h s) = slice_last 100 (ingested e h s)"
    by (simp add: slice_last_long)
  with many have len: "length (podLogs (after e h s)) = 100"
    by (simp add: length_slice_last_eq)
  have cut: "slice_last 100 (ingested e h s) = drop (length (ingested e h s) - 100) (ingested e h s)"
    by (simp add: slice_last_def)
  from len have full: "length (podLogs (after e h s)) \<noteq> 0"
    by simp
  have guid: "api_logs_guid e (after e h s) =
         TextResponse 200 (guid_header e (after e h s) @ join eol (slice_last 100 (ingested e h s)))"
    using full by (simp add: api_logs_guid_def kept)
  have data: "api_logs_data e (after e h s) =
         TextResponse 200
           (data_header e (after e h s)
            @ join eol
                (map (\<lambda>l. concat (map (\<lambda>c. if c = CHR ''|'' then '' -'' else [c]) l))
                   (slice_last 100 (ingested e h s))))"
    using full by (simp add: api_logs_data_def kept replace_pipes_def [abs_def])
  have feeds: "join eol (l # ls) = l @ concat (map ((#) (CHR 0x0A)) ls)"
    by (induction ls arbitrary: l) (simp_all add: eol_def)
  from kept len cut guid data feeds show ?thesis
    by blast
qed

lemma map_upt_shift: "map f [1..<Suc (Suc n)] = f 1 # map (\<lambda>k. f (Suc k)) [1..<Suc n]"
proof -
  have "[1..<Suc (Suc n)] = 1 # [Suc 1..<Suc (Suc n)]"
    by (rule upt_conv_Cons) simp
  also have "[Suc 1..<Suc (Suc n)] = map Suc [1..<Suc n]"
    by (rule map_Suc_upt [symmetric])
  finally show ?thesis
    by (simp add: comp_def del: upt_Suc)
qed

lemma ingested_replicate:
  "requestCount s + n \<le> 2 ^ 53 \<Longrightarrow>
     ingested e (replicate n (PostLog tile_click, a)) s =
       map (\<lambda>k. toISOString (now a) @ '' | Pod: '' @ env_podName e @ '' | GUID: '' @ POD_GUID s
                  @ '' | Action: tile_click | Details: d1 | Req#: '' @ String (int (requestCount s + k)))
         [1..<Suc n]"
proof (induction n arbitrary: s)
  case 0
  show ?case by simp
next
  case (Suc n)
  let ?s1 = "snd (handle e (PostLog tile_click) a s)"
  let ?f = "\<lambda>k. toISOString (now a) @ '' | Pod: '' @ env_podName e @ '' | GUID: '' @ POD_GUID s
                  @ '' | Action: tile_click | Details: d1 | Req#: '' @ String (int (requestCount s + k))"
  from Suc.prems have below: "requestCount s < 2 ^ 53" by simp
  then have count: "requestCount ?s1 = Suc (requestCount s)"
    by (simp add: api_log_def tile_click_valid log_action_def Let_def incr_def)
  have token: "POD_GUID ?s1 = POD_GUID s"
    by (rule handle_POD_GUID)
  from Suc.prems count have "requestCount ?s1 + n \<le> 2 ^ 53" by simp
  then have "ingested e (replicate n (PostLog tile_click, a)) ?s1 =
       map (\<lambda>k. toISOString (now a) @ '' | Pod: '' @ env_podName e @ '' | GUID: '' @ POD_GUID ?s1
                  @ '' | Action: tile_click | Details: d1 | Req#: ''
                  @ String (int (requestCount ?s1 + k)))
         [1..<Suc n]"
    by (rule Suc.IH)
  then have rest: "ingested e (replicate n (PostLog tile_click, a)) ?s1 = map (\<lambda>k. ?f (Suc k)) [1..<Suc n]"
    by (simp only: count token add_Suc add_Suc_right)
  have first: "logEntry e a \<lparr>action = ''tile_click'', guid = ''g1'', details = ''d1'',
                   timestamp = ''t1'', podName = None\<rparr> s (incr (requestCount s)) = ?f 1"
    using below by (simp add: logEntry_def incr_def)
  have "ingested e (replicate (Suc n) (PostLog tile_click, a)) s =
      [logEntry e a \<lparr>action = ''tile_click'', guid = ''g1'', details = ''d1'',
                   timestamp = ''t1'', podName = None\<rparr> s (incr (requestCount s))]
      @ ingested e (replicate n (PostLog tile_click, a)) ?s1"
    by (simp add: tile_click_valid)
  also have "\<dots> = ?f 1 # map (\<lambda>k. ?f (Suc k)) [1..<Suc n]"
    by (simp only: first rest append_Cons append_Nil)
  also have "\<dots> = map ?f [1..<Suc (Suc n)]"
    by (rule map_upt_shift [symmetric])
  finally show ?case .
qed

text \<open>
  An instance: 101 clicks posted from the starting state. The buffer then holds the lines
  of the requests numbered 2 to 101, in that order; the line of request 1 is gone.
\<close>

theorem last_100_in_arrival_order_witness:
  "100 < length (ingested sample_env (replicate 101 (PostLog tile_click, sample_ambient))
                  (pod_init sample_ambient))
   \<and> podLogs (after sample_env (replicate 101 (PostLog tile_click, sample_ambient))
                (pod_init sample_ambient))
       = map (\<lambda>k. ''2023-11-14T22:13:20.000Z | Pod: clickbus-backend-7''
                   @ '' | GUID: 01234567-89ab-4def-8123-456789abcdef''
                   @ '' | Action: tile_click | Details: d1 | Req#: '' @ String (int k))
           [2..<102]
   \<and> length (podLogs (after sample_env (replicate 101 (PostLog tile_click, sample_ambient))
                        (pod_init sample_ambient))) = 100"
proof -
  let ?h = "replicate 101 (PostLog tile_click, sample_ambient)"
  let ?line = "\<lambda>k. ''2023-11-14T22:13:20.000Z | Pod: clickbus-backend-7''
                   @ '' | GUID: 01234567-89ab-4def-8123-456789abcdef''
                   @ '' | Action: tile_click | Details: d1 | Req#: '' @ String (int k)"
  have "requestCount sample_pod + 101 \<le> 2 ^ 53"
    by (simp add: sample_pod_def)
  then have "ingested sample_env ?h sample_pod =
      map (\<lambda>k. toISOString (now sample_ambient) @ '' | Pod: '' @ env_podName sample_env
                 @ '' | GUID: '' @ POD_GUID sample_pod
                 @ '' | Action: tile_click | Details: d1 | Req#: ''
                 @ String (int (requestCount sample_pod + k)))
        [1..<Suc 101]"
    by (rule ingested_replicate)
  moreover have "toISOString (now sample_ambient) = ''2023-11-14T22:13:20.000Z''"
    by (simp add: sample_ambient_def)
  moreover have "env_podName sample_env = ''clickbus-backend-7''"
    by (simp add: sample_env_def env_podName_def or_default_def)
  moreover have "POD_GUID sample_pod = ''01234567-89ab-4def-8123-456789abcdef''"
    and "requestCount sample_pod = 0"
    by (simp_all add: sample_pod_def)
  ultimately have pushed: "ingested sample_env ?h (pod_init sample_ambient) = map ?line [1..<102]"
    unfolding sample_pod_init by (simp del: upt_Suc)
  then have many: "100 < length (ingested sample_env ?h (pod_init sample_ambient))"
    by simp
  have two: "(1::nat) + 1 = 2"
    by simp
  have tail: "drop 1 [1..<102] = [2..<102]"
    using drop_upt [of 1 1 102] unfolding two .
  have "length (map ?line [1..<102]) - 100 = 1"
    by (simp del: upt_rec_numeral upt_Suc)
  then have "slice_last 100 (map ?line [1..<102]) = drop 1 (map ?line [1..<102])"
    by (simp only: slice_last_def)
  also have "\<dots> = map ?line (drop 1 [1..<102])"
    by (rule drop_map)
  also have "\<dots> = map ?line [2..<102]"
    by (simp only: tail)
  finally have cut: "slice_last 100 (map ?line [1..<102]) = map ?line [2..<102]" .
  from last_100_in_arrival_order [OF many]
  have "podLogs (after sample_env ?h (pod_init sample_ambient))
          = slice_last 100 (ingested sample_env ?h (pod_init sample_ambient))"
    and len: "length (podLogs (after sample_env ?h (pod_init sample_ambient))) = 100"
    by blast+
  then have buf: "podLogs (after sample_env ?h (pod_init sample_ambient)) = map ?line [2..<102]"
    by (simp only: pushed cut)
  from many buf len show ?thesis
    by blast
qed

subsection \<open>The identity token\<close>

text \<open>
  Claim C3. No request changes \<open>POD_GUID\<close>: after any history of requests it is what it
  was, and from the start of the process it is the UUID drawn when the module was loaded.
  So each of the six reporting routes, called after any history, reports the one token: the
  two text reports on the GUID line of their header, the four JSON routes in the property
  \<open>podGuid\<close>.
\<close>

theorem identity_token_fixed:
  "POD_GUID (after e h s) = POD_GUID s
   \<and> POD_GUID (after e h (pod_init boot)) = randomUUID (entropy boot)
   \<and> (\<exists>rest. fst (handle e GetLogsGuid a (after e h s)) =
         TextResponse 200
           (''=== ClickBus Pod GUID Logs ==='' @ eol @ ''Pod: '' @ env_podName e @ eol
            @ ''GUID: '' @ POD_GUID s @ eol @ rest))
   \<and> (\<exists>rest. fst (handle e GetLogsData a (after e h s)) =
         TextResponse 200
           (''=== ClickBus Data Activity Log ==='' @ eol @ ''Pod Name: '' @ env_podName e @ eol
            @ ''Pod GUID: '' @ POD_GUID s @ eol @ rest))
   \<and> body_prop (fst (handle e GetPodGuid a (after e h s))) ''podGuid'' = Some (JStr (POD_GUID s))
   \<and> body_prop (fst (handle e GetPodStatus a (after e h s))) ''podGuid'' = Some (JStr (POD_GUID s))
   \<and> body_prop (fst (handle e GetHealth a (after e h s))) ''podGuid'' = Some (JStr (POD_GUID s))
   \<and> body_prop (fst (handle e GetRoot a (after e h s))) ''podGuid'' = Some (JStr (POD_GUID s))"
proof -
  let ?t = "after e h s"
  have fixed: "POD_GUID ?t = POD_GUID s"
    by (rule after_POD_GUID)
  have start: "POD_GUID (after e h (pod_init boot)) = randomUUID (entropy boot)"
    by (simp add: after_POD_GUID pod_init_def)
  have guid: "\<exists>rest. fst (handle e GetLogsGuid a ?t) =
         TextResponse 200
           (''=== ClickBus Pod GUID Logs ==='' @ eol @ ''Pod: '' @ env_podName e @ eol
            @ ''GUID: '' @ POD_GUID s @ eol @ rest)"
    by (simp add: api_logs_guid_def guid_header_def fixed)
  have data: "\<exists>rest. fst (handle e GetLogsData a ?t) =
         TextResponse 200
           (''=== ClickBus Data Activity Log ==='' @ eol @ ''Pod Name: '' @ env_podName e @ eol
            @ ''Pod GUID: '' @ POD_GUID s @ eol @ rest)"
    by (simp add: api_logs_data_def data_header_def fixed)
  have pg: "body_prop (fst (handle e GetPodGuid a ?t)) ''podGuid'' = Some (JStr (POD_GUID s))"
    by (simp add: api_pod_guid_def Let_def fixed)
  have ps: "body_prop (fst (handle e GetPodStatus a ?t)) ''podGuid'' = Some (JStr (POD_GUID s))"
    by (simp add: api_pod_status_def fixed)
  have hl: "body_prop (fst (handle e GetHealth a ?t)) ''podGuid'' = Some (JStr (POD_GUID s))"
    by (simp add: api_health_def fixed)
  have rt: "body_prop (fst (handle e GetRoot a ?t)) ''podGuid'' = Some (JStr (POD_GUID s))"
    by (simp add: root_def fixed)
  from fixed start guid data pg ps hl rt show ?thesis
    by blast
qed

subsection \<open>One click, logged and listed\<close>

lemma digit_not_eol: "k < 10 \<Longrightarrow> ''0123456789'' ! k \<noteq> CHR 0x0A"
proof -
  assume "k < 10"
  then have "k \<in> {0, 1, 2, 3, 4, 5, 6, 7, 8, 9}" by auto
  then show ?thesis by auto
qed

lemma digits_no_eol: "CHR 0x0A \<notin> set (digits n)"
proof (induction n rule: digits.induct)
  case (1 n)
  show ?case
  proof (cases "n < 10")
    case True
    then show ?thesis
      using digit_not_eol [of n] by (subst digits.simps) auto
  next
    case False
    then have "CHR 0x0A \<notin> set (digits (n div 10))"
      using 1 by simp
    moreover have "''0123456789'' ! (n mod 10) \<noteq> CHR 0x0A"
      by (rule digit_not_eol) simp
    ultimately show ?thesis
      using False by (subst digits.simps) auto
  qed
qed

lemma String_no_eol: "CHR 0x0A \<notin> set (String i)"
  by (simp add: String_def digits_no_eol)

lemma split_lines_nonempty: "split_lines cs \<noteq> []"
  by (induction cs) (auto split: list.split)

lemma split_lines_no_eol: "CHR 0x0A \<notin> set ys \<Longrightarrow> split_lines ys = [ys]"
  by (induction ys) auto

text \<open>Text without a line feed, appended to a text, extends that text's last line.\<close>

lemma split_lines_append:
  "CHR 0x0A \<notin> set ys \<Longrightarrow>
     length (split_lines (xs @ ys)) = length (split_lines xs)
     \<and> last (split_lines (xs @ ys)) = last (split_lines xs) @ ys"
proof (induction xs)
  case Nil
  then show ?case by (simp add: split_lines_no_eol)
next
  case (Cons c xs)
  then have len: "length (split_lines (xs @ ys)) = length (split_lines xs)"
    and lst: "last (split_lines (xs @ ys)) = last (split_lines xs) @ ys"
    by simp_all
  obtain l ls where a: "split_lines (xs @ ys) = l # ls"
    using split_lines_nonempty [of "xs @ ys"] by (cases "split_lines (xs @ ys)") auto
  obtain l' ls' where b: "split_lines xs = l' # ls'"
    using split_lines_nonempty [of xs] by (cases "split_lines xs") auto
  from len a b have "ls = [] \<longleftrightarrow> ls' = []" by auto
  with lst a b len show ?case by (auto split: if_splits)
qed

lemma join_last: "xs \<noteq> [] \<Longrightarrow> \<exists>pre. join sep xs = pre @ last xs"
proof (induction sep xs rule: join.induct)
  case (1 sep)
  then show ?case by simp
next
  case (2 sep x)
  show ?case by simp
next
  case (3 sep x y ys)
  then obtain pre where "join sep (y # ys) = pre @ last (y # ys)" by auto
  then have "join sep (x # y # ys) = (x @ sep @ pre) @ last (x # y # ys)" by simp
  then show ?case by blast
qed

text \<open>
  Claim C4. Posting \<open>{action: "tile_click", guid: "g1", details: "d1", timestamp: "t1"}\<close>,
  in any state, with any environment, clock and random bits, is answered with status 200
  and the body \<open>{success: true, message: ..., logId}\<close>, where \<open>logId\<close> is not empty. The
  GUID report fetched next has a line that includes both \<open>Action: tile_click\<close> and
  \<open>Details: d1\<close>.
\<close>

theorem tile_click_logged_and_listed:
  "\<exists>logId body line.
     fst (api_log e a tile_click s) =
       JsonResponse 200
         (JObj [(''success'', JBool True), (''message'', JStr ''Action logged successfully''),
                (''logId'', JStr logId)])
     \<and> logId \<noteq> []
     \<and> api_logs_guid e (snd (api_log e a tile_click s)) = TextResponse 200 body
     \<and> line \<in> set (split_lines body)
     \<and> (\<exists>p q. line = p @ ''Action: tile_click'' @ q)
     \<and> (\<exists>p q. line = p @ ''Details: d1'' @ q)"
proof -
  let ?s' = "snd (api_log e a tile_click s)"
  let ?n = "incr (requestCount s)"
  let ?d = "\<lparr>action = ''tile_click'', guid = ''g1'', details = ''d1'', timestamp = ''t1'',
             podName = None\<rparr>"
  let ?tail = "'' | Action: tile_click | Details: d1 | Req#: '' @ String (int ?n)"
  have run: "api_log e a tile_click s = log_action e a ?d s"
    by (simp add: api_log_def tile_click_valid)
  have reply: "fst (api_log e a tile_click s) =
       JsonResponse 200
         (JObj [(''success'', JBool True), (''message'', JStr ''Action logged successfully''),
                (''logId'', JStr (randomUUID (entropy a)))])"
    by (simp add: run log_action_def Let_def)
  have "length (randomUUID (entropy a)) = 36"
    by (rule length_randomUUID)
  then have fresh: "randomUUID (entropy a) \<noteq> []"
    by auto
  have logs: "podLogs ?s' = slice_last 100 (podLogs s @ [logEntry e a ?d s ?n])"
    by (simp add: run log_action_podLogs)
  then have nonempty: "podLogs ?s' \<noteq> []"
    by (auto simp: slice_last_def)
  from logs have "last (podLogs ?s') = logEntry e a ?d s ?n"
    by (simp add: slice_last_def)
  then obtain front where entry: "last (podLogs ?s') = front @ ?tail"
    by (simp add: logEntry_def)
  obtain pre where "join eol (podLogs ?s') = pre @ last (podLogs ?s')"
    using join_last [OF nonempty] by blast
  with entry have joined: "join eol (podLogs ?s') = (pre @ front) @ ?tail"
    by simp
  let ?body = "guid_header e ?s' @ join eol (podLogs ?s')"
  have view: "api_logs_guid e ?s' = TextResponse 200 ?body"
    using nonempty by (simp add: api_logs_guid_def)
  have "CHR 0x0A \<notin> set ?tail"
    by (simp add: String_no_eol)
  then have "last (split_lines ((guid_header e ?s' @ pre @ front) @ ?tail))
               = last (split_lines (guid_header e ?s' @ pre @ front)) @ ?tail"
    using split_lines_append by blast
  with joined have lastline:
    "last (split_lines ?body) = last (split_lines (guid_header e ?s' @ pre @ front)) @ ?tail"
    by simp
  let ?line = "last (split_lines ?body)"
  have member: "?line \<in> set (split_lines ?body)"
    by (rule last_in_set) (rule split_lines_nonempty)
  from lastline have act: "\<exists>p q. ?line = p @ ''Action: tile_click'' @ q"
    by (intro exI [of _ "last (split_lines (guid_header e ?s' @ pre @ front)) @ '' | ''"]
        exI [of _ "'' | Details: d1 | Req#: '' @ String (int ?n)"]) simp
  from lastline have det: "\<exists>p q. ?line = p @ ''Details: d1'' @ q"
    by (intro exI [of _ "last (split_lines (guid_header e ?s' @ pre @ front))
                          @ '' | Action: tile_click | ''"]
        exI [of _ "'' | Req#: '' @ String (int ?n)"]) simp
  from reply fresh view member act det show ?thesis
    by blast
qed

subsection \<open>Rejected bodies\<close>

lemma LogActionSchema_needs_action:
  "get_prop j ''action'' = None \<Longrightarrow> LogActionSchema j = None"
  by (cases j) (simp_all add: LogActionSchema_def)

text \<open>
  Claim C5. A body that has no \<open>action\<close> (an object without that key, or no object at
  all) is answered with status 400, a client error, and the state after the request is the
  state before it: nothing is pushed onto the buffer and the counter keeps its value.
\<close>

theorem missing_action_rejected:
  "get_prop j ''action'' = None \<Longrightarrow>
     status (fst (api_log e a j s)) = 400 \<and> snd (api_log e a j s) = s
     \<and> podLogs (snd (handle e (PostLog j) a s)) = podLogs s
     \<and> requestCount (snd (handle e (PostLog j) a s)) = requestCount s"
  by (simp add: api_log_def LogActionSchema_needs_action)

text \<open>An instance: the body \<open>{guid: "g1", details: "d1", timestamp: "t1"}\<close>.\<close>

theorem missing_action_rejected_witness:
  "get_prop (JObj [(''guid'', JStr ''g1''), (''details'', JStr ''d1''), (''timestamp'', JStr ''t1'')])
     ''action'' = None
   \<and> status (fst (api_log sample_env sample_ambient
         (JObj [(''guid'', JStr ''g1''), (''details'', JStr ''d1''), (''timestamp'', JStr ''t1'')])
         (pod_init sample_ambient))) = 400
   \<and> snd (api_log sample_env sample_ambient
         (JObj [(''guid'', JStr ''g1''), (''details'', JStr ''d1''), (''timestamp'', JStr ''t1'')])
         (pod_init sample_ambient)) = pod_init sample_ambient"
  using missing_action_rejected
    [of "JObj [(''guid'', JStr ''g1''), (''details'', JStr ''d1''), (''timestamp'', JStr ''t1'')]"
      sample_env sample_ambient "pod_init sample_ambient"]
  by simp

subsection \<open>GET /api/pod-guid, twice\<close>

text \<open>
  Claim C6. Call GET /api/pod-guid, let any history of requests follow, and call it again:
  both responses carry the same \<open>podGuid\<close>, and the second's \<open>requestsHandled\<close> is at
  least the first's.
\<close>

theorem pod_guid_twice:
  "body_prop (fst (handle e GetPodGuid a1 s)) ''podGuid'' = Some (JStr (POD_GUID s))
   \<and> body_prop (fst (handle e GetPodGuid a2 (after e h (snd (handle e GetPodGuid a1 s))))) ''podGuid''
       = Some (JStr (POD_GUID s))
   \<and> (\<exists>n1 n2.
        body_prop (fst (handle e GetPodGuid a1 s)) ''requestsHandled'' = Some (JNum n1)
        \<and> body_prop (fst (handle e GetPodGuid a2 (after e h (snd (handle e GetPodGuid a1 s)))))
             ''requestsHandled'' = Some (JNum n2)
        \<and> n1 \<le> n2)"
proof -
  let ?s1 = "snd (handle e GetPodGuid a1 s)"
  let ?t = "after e h ?s1"
  have g1: "body_prop (fst (handle e GetPodGuid a1 s)) ''podGuid'' = Some (JStr (POD_GUID s))"
    by (simp add: api_pod_guid_def Let_def)
  have "POD_GUID ?t = POD_GUID s"
    using after_POD_GUID [of e h ?s1] handle_POD_GUID [of e GetPodGuid a1 s] by simp
  then have g2: "body_prop (fst (handle e GetPodGuid a2 ?t)) ''podGuid'' = Some (JStr (POD_GUID s))"
    by (simp add: api_pod_guid_def Let_def)
  have n1: "body_prop (fst (handle e GetPodGuid a1 s)) ''requestsHandled''
              = Some (JNum (int (requestCount ?s1)))"
    by (simp add: api_pod_guid_def Let_def)
  have n2: "body_prop (fst (handle e GetPodGuid a2 ?t)) ''requestsHandled''
              = Some (JNum (int (incr (requestCount ?t))))"
    by (simp add: api_pod_guid_def Let_def)
  have "requestCount ?s1 \<le> requestCount ?t"
    by (rule after_requestCount)
  also have "\<dots> \<le> incr (requestCount ?t)"
    by (rule incr_ge)
  finally have "int (requestCount ?s1) \<le> int (incr (requestCount ?t))"
    by simp
  with g1 g2 n1 n2 show ?thesis
    by blast
qed

subsection \<open>The text reports\<close>

text \<open>
  Claim C7. When the buffer is empty, the GUID report is its header followed by the
  sentence \<open>No activity logged yet on this pod.\<close>, and the data report is its header
  followed by the sentence \<open>No user interactions logged yet on this pod.\<close>, an empty
  line and the note on the 10-replica deployment. Neither body is empty.
\<close>

theorem empty_buffer_placeholders:
  "podLogs s = [] \<Longrightarrow>
     api_logs_guid e s = TextResponse 200 (guid_header e s @ ''No activity logged yet on this pod.'')
     \<and> api_logs_data e s =
         TextResponse 200
           (data_header e s
            @ ''No user interactions logged yet on this pod.'' @ [CHR 0x0A, CHR 0x0A]
            @ ''Note: In a 10-replica deployment, you'' @ [CHR 0x27]
            @ ''ll see different pod GUIDs serving different requests, demonstrating load distribution.'')
     \<and> (\<exists>b. api_logs_guid e s = TextResponse 200 b \<and> b \<noteq> [])
     \<and> (\<exists>b. api_logs_data e s = TextResponse 200 b \<and> b \<noteq> [])"
  by (simp add: api_logs_guid_def api_logs_data_def data_placeholder_def eol_def)

text \<open>An instance: both reports, in full, in the state the process starts in.\<close>

theorem empty_buffer_placeholders_witness:
  "podLogs (pod_init sample_ambient) = []
   \<and> api_logs_guid sample_env (pod_init sample_ambient) =
       TextResponse 200
         (''=== ClickBus Pod GUID Logs ==='' @ [CHR 0x0A]
          @ ''Pod: clickbus-backend-7'' @ [CHR 0x0A]
          @ ''GUID: 01234567-89ab-4def-8123-456789abcdef'' @ [CHR 0x0A]
          @ ''Started: 2023-11-14T22:13:20.000Z'' @ [CHR 0x0A]
          @ ''Total Requests Processed: 0'' @ [CHR 0x0A, CHR 0x0A]
          @ ''=== Recent Activity ==='' @ [CHR 0x0A]
          @ ''No activity logged yet on this pod.'')
   \<and> api_logs_data sample_env (pod_init sample_ambient) =
       TextResponse 200
         (''=== ClickBus Data Activity Log ==='' @ [CHR 0x0A]
          @ ''Pod Name: clickbus-backend-7'' @ [CHR 0x0A]
          @ ''Pod GUID: 01234567-89ab-4def-8123-456789abcdef'' @ [CHR 0x0A]
          @ ''Uptime: 2023-11-14T22:13:20.000Z'' @ [CHR 0x0A]
          @ ''Requests Handled: 0'' @ [CHR 0x0A, CHR 0x0A]
          @ ''No user interactions logged yet on this pod.'' @ [CHR 0x0A, CHR 0x0A]
          @ ''Note: In a 10-replica deployment, you'' @ [CHR 0x27]
          @ ''ll see different pod GUIDs serving different requests, demonstrating load distribution.'')"
proof -
  have empty: "podLogs (pod_init sample_ambient) = []"
    by (simp add: pod_init_def)
  have guid: "guid_header sample_env (pod_init sample_ambient) =
          ''=== ClickBus Pod GUID Logs ==='' @ [CHR 0x0A]
          @ ''Pod: clickbus-backend-7'' @ [CHR 0x0A]
          @ ''GUID: 01234567-89ab-4def-8123-456789abcdef'' @ [CHR 0x0A]
          @ ''Started: 2023-11-14T22:13:20.000Z'' @ [CHR 0x0A]
          @ ''Total Requests Processed: 0'' @ [CHR 0x0A, CHR 0x0A]
          @ ''=== Recent Activity ==='' @ [CHR 0x0A]"
    unfolding sample_pod_init
    by (simp add: guid_header_def sample_pod_def sample_env_def sample_ambient_def env_podName_def
        or_default_def eol_def String_def digits.simps)
  have data: "data_header sample_env (pod_init sample_ambient) =
          ''=== ClickBus Data Activity Log ==='' @ [CHR 0x0A]
          @ ''Pod Name: clickbus-backend-7'' @ [CHR 0x0A]
          @ ''Pod GUID: 01234567-89ab-4def-8123-456789abcdef'' @ [CHR 0x0A]
          @ ''Uptime: 2023-11-14T22:13:20.000Z'' @ [CHR 0x0A]
          @ ''Requests Handled: 0'' @ [CHR 0x0A, CHR 0x0A]"
    unfolding sample_pod_init
    by (simp add: data_header_def sample_pod_def sample_env_def sample_ambient_def env_podName_def
        or_default_def eol_def String_def digits.simps)
  from empty show ?thesis
    using empty_buffer_placeholders [of "pod_init sample_ambient" sample_env]
    by (simp add: guid data)
qed

text \<open>
  Claim C8, as stated: the data report renders each stored line with every pipe replaced
  by a dash. It does not: after one click is logged from the starting state, the report is
  not its header followed by the line with a dash for each pipe.
\<close>

theorem data_report_single_dash_counterexample:
  "api_logs_data sample_env (snd (api_log sample_env sample_ambient tile_click (pod_init sample_ambient)))
   \<noteq> TextResponse 200
       (data_header sample_env
          (snd (api_log sample_env sample_ambient tile_click (pod_init sample_ambient)))
        @ join eol
            (map dash_for_pipe
               (podLogs (snd (api_log sample_env sample_ambient tile_click (pod_init sample_ambient))))))"
  unfolding sample_pod_init
  by (simp add: api_logs_data_def api_log_def tile_click_valid log_action_def Let_def
      sample_pod_def logEntry_def sample_ambient_def sample_env_def
      env_podName_def or_default_def replace_pipes_def dash_for_pipe_def)

text \<open>
  Claim C8, amended: for every buffer content, the data report is its header followed by
  the placeholder when the buffer is empty, and otherwise by the stored lines, in order,
  each further line behind a line feed, each line with every pipe replaced by a space and
  a dash (the two characters \<open> -\<close>) and every other character kept: a text without a
  pipe is rendered as it is. No pipe of a stored line is left in its rendering.
\<close>

theorem data_report_pipes_to_space_dash:
  "api_logs_data e s =
     TextResponse 200
       (data_header e s
        @ (if podLogs s = []
           then ''No user interactions logged yet on this pod.'' @ [CHR 0x0A, CHR 0x0A]
                @ ''Note: In a 10-replica deployment, you'' @ [CHR 0x27]
                @ ''ll see different pod GUIDs serving different requests, demonstrating load distribution.''
           else join eol
                  (map (\<lambda>l. concat (map (\<lambda>c. if c = CHR ''|'' then '' -'' else [c]) l))
                     (podLogs s))))
   \<and> join eol (l # ls) = l @ concat (map ((#) (CHR 0x0A)) ls)
   \<and> replace_pipes log = concat (map (\<lambda>c. if c = CHR ''|'' then '' -'' else [c]) log)
   \<and> replace_pipes (xs @ ''|'' @ ys) = replace_pipes xs @ '' -'' @ replace_pipes ys
   \<and> (CHR ''|'' \<notin> set t \<longrightarrow> replace_pipes t = t)
   \<and> CHR ''|'' \<notin> set (replace_pipes log)"
proof -
  have body: "api_logs_data e s =
     TextResponse 200
       (data_header e s
        @ (if podLogs s = []
           then ''No user interactions logged yet on this pod.'' @ [CHR 0x0A, CHR 0x0A]
                @ ''Note: In a 10-replica deployment, you'' @ [CHR 0x27]
                @ ''ll see different pod GUIDs serving different requests, demonstrating load distribution.''
           else join eol
                  (map (\<lambda>l. concat (map (\<lambda>c. if c = CHR ''|'' then '' -'' else [c]) l))
                     (podLogs s))))"
    by (simp add: api_logs_data_def data_placeholder_def eol_def replace_pipes_def [abs_def])
  have one: "replace_pipes (xs @ ''|'' @ ys) = replace_pipes xs @ '' -'' @ replace_pipes ys"
    by (simp add: replace_pipes_def)
  have def: "replace_pipes log = concat (map (\<lambda>c. if c = CHR ''|'' then '' -'' else [c]) log)"
    by (simp add: replace_pipes_def)
  have feeds: "join eol (l # ls) = l @ concat (map ((#) (CHR 0x0A)) ls)"
    by (induction ls arbitrary: l) (simp_all add: eol_def)
  have kept: "CHR ''|'' \<notin> set t \<longrightarrow> replace_pipes t = t"
    by (induction t) (auto simp: replace_pipes_def)
  have gone: "CHR ''|'' \<notin> set (replace_pipes log)"
    by (induction log) (simp_all add: replace_pipes_def)
  from body one def feeds kept gone show ?thesis
    by blast
qed

text \<open>An instance: a text without a pipe, and one with a pipe.\<close>

theorem data_report_pipes_to_space_dash_witness:
  "CHR ''|'' \<notin> set ''Pod: a'' \<and> replace_pipes ''Pod: a'' = ''Pod: a''
   \<and> replace_pipes ''t | Pod: a'' = ''t  - Pod: a''"
proof -
  have free: "CHR ''|'' \<notin> set ''Pod: a''"
    by simp
  have keep: "replace_pipes ''Pod: a'' = ''Pod: a''"
    using free data_report_pipes_to_space_dash [where t = "''Pod: a''"] by blast
  have "replace_pipes (''t '' @ ''|'' @ '' Pod: a'') = replace_pipes ''t '' @ '' -'' @ replace_pipes '' Pod: a''"
    using data_report_pipes_to_space_dash [where xs = "''t ''" and ys = "'' Pod: a''"] by blast
  then have "replace_pipes ''t | Pod: a'' = ''t  - Pod: a''"
    by (simp add: replace_pipes_def)
  with free keep show ?thesis
    by blast
qed

text \<open>
  Claim C9. Handling GET /api/logs/guid or GET /api/logs/data leaves the whole state as it
  was, buffer and counter included. So do GET /api/pod-status, GET /api/health and GET /.
  The counter moves only in GET /api/pod-guid and in the ingestion handler, each of which
  counts the request.
\<close>

theorem log_views_read_only:
  "snd (handle e GetLogsGuid a s) = s
   \<and> snd (handle e GetLogsData a s) = s
   \<and> snd (handle e GetPodStatus a s) = s
   \<and> snd (handle e GetHealth a s) = s
   \<and> snd (handle e GetRoot a s) = s
   \<and> snd (handle e GetPodGuid a s) = s\<lparr>requestCount := incr (requestCount s)\<rparr>
   \<and> requestCount (snd (log_action e a d s)) = incr (requestCount s)"
  by (simp add: api_pod_guid_def log_action_def Let_def)

subsection \<open>The pod name a client sends\<close>

text \<open>
  Claim C10. Two bodies that pass the schema and agree on \<open>action\<close>, \<open>guid\<close>, \<open>details\<close>
  and \<open>timestamp\<close>, so that they can differ in \<open>podName\<close> only, are handled alike from the
  same state: the same response and the same state after, buffer and counter included.
  The line pushed names the pod by the environment's \<open>POD_NAME\<close>, or \<open>backend-pod\<close>
  when that is not set.
\<close>

theorem client_podName_ignored:
  "LogActionSchema j = Some d \<Longrightarrow> LogActionSchema j' = Some d' \<Longrightarrow>
   action d' = action d \<Longrightarrow> guid d' = guid d \<Longrightarrow> details d' = details d \<Longrightarrow>
   timestamp d' = timestamp d \<Longrightarrow>
     api_log e a j' s = api_log e a j s
     \<and> last (podLogs (snd (api_log e a j s))) =
         toISOString (now a) @ '' | Pod: '' @ or_default (POD_NAME e) ''backend-pod''
         @ '' | GUID: '' @ POD_GUID s @ '' | Action: '' @ action d @ '' | Details: '' @ details d
         @ '' | Req#: '' @ String (int (incr (requestCount s)))"
  by (simp add: api_log_def log_action_def Let_def logEntry_def env_podName_def slice_last_def)

text \<open>An instance: the click of C4, with and without a \<open>podName\<close> of the client's.\<close>

theorem client_podName_ignored_witness:
  "LogActionSchema
     (JObj [(''action'', JStr ''tile_click''), (''guid'', JStr ''g1''), (''details'', JStr ''d1''),
            (''timestamp'', JStr ''t1''), (''podName'', JStr ''some-other-pod'')])
     = Some \<lparr>action = ''tile_click'', guid = ''g1'', details = ''d1'', timestamp = ''t1'',
              podName = Some ''some-other-pod''\<rparr>
   \<and> LogActionSchema tile_click
     = Some \<lparr>action = ''tile_click'', guid = ''g1'', details = ''d1'', timestamp = ''t1'',
              podName = None\<rparr>
   \<and> api_log sample_env sample_ambient tile_click (pod_init sample_ambient)
     = api_log sample_env sample_ambient
         (JObj [(''action'', JStr ''tile_click''), (''guid'', JStr ''g1''), (''details'', JStr ''d1''),
                (''timestamp'', JStr ''t1''), (''podName'', JStr ''some-other-pod'')])
         (pod_init sample_ambient)"
proof -
  let ?j = "JObj [(''action'', JStr ''tile_click''), (''guid'', JStr ''g1''), (''details'', JStr ''d1''),
            (''timestamp'', JStr ''t1''), (''podName'', JStr ''some-other-pod'')]"
  let ?d = "\<lparr>action = ''tile_click'', guid = ''g1'', details = ''d1'', timestamp = ''t1'',
              podName = Some ''some-other-pod''\<rparr>"
  let ?d' = "\<lparr>action = ''tile_click'', guid = ''g1'', details = ''d1'', timestamp = ''t1'',
              podName = None :: string option\<rparr>"
  have v: "LogActionSchema ?j = Some ?d"
    by (simp add: LogActionSchema_def)
  have v': "LogActionSchema tile_click = Some ?d'"
    by (rule tile_click_valid)
  have "api_log sample_env sample_ambient tile_click (pod_init sample_ambient)
     = api_log sample_env sample_ambient ?j (pod_init sample_ambient)"
    using client_podName_ignored [OF v v', of sample_env sample_ambient "pod_init sample_ambient"]
    by simp
  with v v' show ?thesis
    by blast
qed

end
